theory Spec2Isabelle
  imports
    Complex_Main
    "HOL-Library.Char_ord"
    "HOL-Library.List_Lexorder"
    "HOL-Library.Multiset"
begin

section \<open>Keyword cannibalisation: the cleaning pipeline of \<open>keyword_can.py\<close>\<close>

text \<open>
  The program is one function, \<open>main\<close>. After the form is submitted it reads the
  uploaded CSV file with \<open>pd.read_csv\<close> and runs a fixed chain of pandas operations on
  the resulting DataFrame (lines 47 to 113). This theory embeds that chain: each pandas
  call of the source is one definition below, named after the call or after the variable
  the source assigns, and composed in the order of the source.

  Conventions of the embedding.
  \<^item> A DataFrame is the list of its rows, in row order. Only the three columns the program
    reads are kept; line 95 of the source drops every other column anyway. The cells of
    \<open>Query\<close> and \<open>Landing Page\<close> are text.
  \<^item> Text is \<open>string\<close>; a character stands for the code point of the same number, so
    the model covers text with code points below 256. Strings are compared as Python
    compares them, code point by code point.
  \<^item> The \<open>Impressions\<close> column is \<open>int64\<close> in pandas; the model uses \<open>int\<close> and leaves
    the wrap-around at \<open>2 ^ 63\<close> out.
  \<^item> \<open>sort_values\<close> is modelled by the stable insertion sort \<open>sort_key\<close>. pandas leaves
    the relative order of rows with equal keys to its sorting routine; the general
    theorems of the last section use of a sort only that its result is a permutation of
    its argument in key order.
\<close>

subsection \<open>Python strings: \<open>split\<close> and \<open>strip\<close>\<close>

text \<open>\<open>str.isspace\<close> for the code points below 256.\<close>

definition isspace :: "char \<Rightarrow> bool" where
  "isspace c = (of_char c \<in> set [9, 10, 11, 12, 13, 28, 29, 30, 31, 32, 133, 160 :: nat])"

text \<open>\<open>s.strip()\<close>: leading and trailing white space removed.\<close>

definition strip :: "string \<Rightarrow> string" where
  "strip s = rev (dropWhile isspace (rev (dropWhile isspace s)))"

text \<open>
  \<open>s.split(',')\<close>: the pieces between the commas, empty pieces included; \<open>cur\<close> is the
  piece being read, reversed.
\<close>

fun split_from :: "string \<Rightarrow> string \<Rightarrow> string list" where
  "split_from cur [] = [rev cur]"
| "split_from cur (c # cs) =
     (if c = CHR '','' then rev cur # split_from [] cs else split_from (c # cur) cs)"

definition split_comma :: "string \<Rightarrow> string list" where
  "split_comma s = split_from [] s"

subsection \<open>Numbers: \<open>float64\<close> arithmetic, \<open>astype(int)\<close>, \<open>str\<close>\<close>

text \<open>
  Line 86 divides two \<open>int64\<close> columns and multiplies by 100. pandas computes this in
  \<open>float64\<close>: both operands are converted, and every operation returns the double
  nearest to the exact result, ties going to the even significand. A finite double is a
  rational number, so the model computes with \<open>rat\<close> and rounds after every operation.
  \<open>float64 x\<close> is the number with a 53-bit significand nearest to \<open>x\<close>; the exponent is
  not bounded, which agrees with IEEE 754 wherever the result is a normal double, as all
  percentages of \<open>int64\<close> counts are.

  \<open>bit_length n\<close> is the number of binary digits of a positive \<open>n\<close>, as Python's
  \<open>int.bit_length\<close>.
\<close>

function bit_length :: "int \<Rightarrow> int" where
  "bit_length n = (if n \<le> 0 then 0 else bit_length (n div 2) + 1)"
  by pat_completeness auto
termination
  by (relation "measure nat") auto

declare bit_length.simps [simp del]

definition pow2 :: "int \<Rightarrow> rat" where
  "pow2 e = (if 0 \<le> e then 2 ^ nat e else 1 / 2 ^ nat (- e))"

definition round_half_even :: "rat \<Rightarrow> int" where
  "round_half_even x =
     (let f = \<lfloor>x\<rfloor>; d = x - of_int f
      in if d < 1 / 2 then f else if 1 / 2 < d then f + 1 else if even f then f else f + 1)"

text \<open>
  For \<open>x = a / b > 0\<close> with \<open>k\<close> the difference of the bit lengths of \<open>a\<close> and \<open>b\<close>,
  \<open>x\<close> lies between \<open>2 ^ (k - 1)\<close> and \<open>2 ^ (k + 1)\<close>; \<open>e\<close> is chosen so that
  \<open>x / 2 ^ e\<close> lies in \<open>[2 ^ 52, 2 ^ 53)\<close> and is then rounded to an integer.
\<close>

definition float64_pos :: "rat \<Rightarrow> rat" where
  "float64_pos x =
     (let (a, b) = quotient_of x;
          k = bit_length a - bit_length b;
          e = (if x * pow2 (53 - k) < 2 ^ 53 then k - 53 else k - 52)
      in of_int (round_half_even (x * pow2 (- e))) * pow2 e)"

definition float64 :: "rat \<Rightarrow> rat" where
  "float64 x = (if x = 0 then 0 else if 0 < x then float64_pos x else - float64_pos (- x))"

text \<open>
  Line 86: \<open>(df['Impressions'] / df['Total Keyword Impressions']) * 100\<close>, one row.
  The divisor is never zero there (lemma \<open>total_ge_10\<close> below).
\<close>

definition percentage :: "int \<Rightarrow> int \<Rightarrow> rat" where
  "percentage i t = float64 (float64 (float64 (of_int i) / float64 (of_int t)) * 100)"

text \<open>\<open>astype(int)\<close> on a float: the fraction is cut off, towards zero.\<close>

definition astype_int :: "rat \<Rightarrow> int" where
  "astype_int x = (if 0 \<le> x then \<lfloor>x\<rfloor> else \<lceil>x\<rceil>)"

text \<open>\<open>str\<close> of a Python integer: decimal digits, a minus sign when negative.\<close>

function digits10 :: "int \<Rightarrow> string" where
  "digits10 n =
     (if n < 10 then [char_of (48 + n)] else digits10 (n div 10) @ [char_of (48 + n mod 10)])"
  by pat_completeness auto
termination
  by (relation "measure nat") auto

declare digits10.simps [simp del]

definition str :: "int \<Rightarrow> string" where
  "str i = (if i < 0 then CHR ''-'' # digits10 (- i) else digits10 i)"

subsection \<open>Data\<close>

text \<open>
  A cell of the \<open>Impressions\<close> column after \<open>pd.to_numeric(errors='coerce')\<close> (line 58):
  the finite number the cell parses to, or \<open>NaN\<close> when it does not parse (an empty cell
  is \<open>NaN\<close> as well). Cells that parse to an infinity are outside the model.
\<close>

datatype cell = Num rat | NaN

text \<open>
  A row. The type of the \<open>Impressions\<close> column changes at line 61 from coerced cells to
  integers, so it is a parameter.
\<close>

record 'i row =
  Landing_Page :: string
  Query :: string
  Impressions :: 'i

text \<open>Line 83 adds a column, line 86 another; line 101 turns the latter into text.\<close>

record trow = "int row" +
  Total_Keyword_Impressions :: int

record 'p prow = trow +
  Percentage_of_Impressions :: 'p

text \<open>
  The DataFrame that \<open>pd.read_csv\<close> returns: the names of its columns and its rows. The
  three fields of a row are read only after line 51 has found their columns present.
\<close>

record dataframe =
  columns :: "string list"
  rows :: "cell row list"

text \<open>
  The uploaded file, as \<open>pd.read_csv\<close> sees it at line 47: it raises \<open>EmptyDataError\<close>,
  raises \<open>ParserError\<close>, or returns a DataFrame.
\<close>

datatype uploaded_file = Empty_File | Malformed_File | Csv dataframe

text \<open>
  The ways a submission ends without a cleaned table: \<open>st.error\<close> followed by \<open>st.stop\<close>
  at lines 53 and 54 (\<open>st.stop\<close> ends the script run and is not caught by
  \<open>except Exception\<close>), the two handlers at lines 156 to 159, and the missing upload at
  line 163. The handler at line 160 is for failures of the libraries, which the model
  does not have.
\<close>

datatype error =
  Missing_Columns "string list"
| EmptyDataError
| ParserError
| No_File

text \<open>
  One row of \<open>cannibalization\<close> (line 108): the query, the number of its distinct landing
  pages (the source keeps the column name \<open>Landing Page\<close> for this count) and its total.
\<close>

record summary =
  s_Query :: string
  s_Landing_Pages :: nat
  s_Total_Keyword_Impressions :: int

text \<open>
  The variables of \<open>main\<close> that hold results when the \<open>with\<close> block ends. The source
  goes on to show \<open>df\<close> and \<open>top_cannibalized\<close>; the two counts stay in their variables.
\<close>

record outcome =
  df :: "string prow list"
  top_cannibalized :: "summary list"
  dropped_non_numeric :: int
  dropped_low_impressions :: int

subsection \<open>Lines 50 to 54: required columns\<close>

definition required_columns :: "string list" where
  "required_columns = [''Impressions'', ''Query'', ''Landing Page'']"

definition missing_columns :: "dataframe \<Rightarrow> string list" where
  "missing_columns d = [col \<leftarrow> required_columns. col \<notin> set (columns d)]"

subsection \<open>Lines 58 to 65: numeric impressions, sorted\<close>

text \<open>
  \<open>dropna\<close> on the coerced column followed by \<open>astype(int)\<close>: rows whose cell is \<open>NaN\<close>
  go, the others keep their place and get the integer part of their number.
\<close>

fun numeric_rows :: "cell row list \<Rightarrow> int row list" where
  "numeric_rows [] = []"
| "numeric_rows (r # rs) =
     (case Impressions r of
        NaN \<Rightarrow> numeric_rows rs
      | Num x \<Rightarrow>
          \<lparr>Landing_Page = Landing_Page r, Query = Query r, Impressions = astype_int x\<rparr>
            # numeric_rows rs)"

text \<open>Line 62: \<open>initial_row_count - df.shape[0]\<close>.\<close>

definition count_dropped_non_numeric :: "cell row list \<Rightarrow> int" where
  "count_dropped_non_numeric rs = int (length rs) - int (length (numeric_rows rs))"

text \<open>Line 65: \<open>sort_values(by='Impressions', ascending=False)\<close>.\<close>

definition sort_by_Impressions_desc :: "int row list \<Rightarrow> int row list" where
  "sort_by_Impressions_desc rs = sort_key (\<lambda>r. - Impressions r) rs"

definition normalized :: "dataframe \<Rightarrow> int row list" where
  "normalized d = sort_by_Impressions_desc (numeric_rows (rows d))"

subsection \<open>Lines 68 to 78: branded terms and the impression floor\<close>

text \<open>Line 69: the terms typed into the form, trimmed, empty ones left out.\<close>

definition queries_to_remove :: "string \<Rightarrow> string list" where
  "queries_to_remove query_to_remove =
     [strip query. query \<leftarrow> split_comma query_to_remove, strip query \<noteq> []]"

text \<open>Lines 68 to 73, with both tests of the source.\<close>

definition remove_branded :: "string \<Rightarrow> int row list \<Rightarrow> int row list" where
  "remove_branded query_to_remove rs =
     (if query_to_remove \<noteq> []
      then (if queries_to_remove query_to_remove \<noteq> []
            then [r \<leftarrow> rs. Query r \<notin> set (queries_to_remove query_to_remove)]
            else rs)
      else rs)"

text \<open>Line 77: \<open>df[df['Impressions'] >= 10]\<close>.\<close>

definition impressions_floor :: "int row list \<Rightarrow> int row list" where
  "impressions_floor rs = [r \<leftarrow> rs. 10 \<le> Impressions r]"

text \<open>Lines 76 to 78: \<open>before_filter - df.shape[0]\<close>.\<close>

definition count_dropped_low_impressions :: "int row list \<Rightarrow> int" where
  "count_dropped_low_impressions before_filter =
     int (length before_filter) - int (length (impressions_floor before_filter))"

text \<open>The table the aggregation starts from.\<close>

definition filtered :: "string \<Rightarrow> dataframe \<Rightarrow> int row list" where
  "filtered query_to_remove d = impressions_floor (remove_branded query_to_remove (normalized d))"

subsection \<open>Lines 81 to 92: totals, shares, duplicates, share band\<close>

text \<open>
  \<open>groupby('Query')['Impressions'].sum()\<close> walks the rows once and adds every value to the
  running sum of its group; a query seen for the first time opens a group.
  \<open>reset_index\<close> then lists the groups with their keys in ascending order.
\<close>

fun add_to_group :: "string \<Rightarrow> int \<Rightarrow> (string \<times> int) list \<Rightarrow> (string \<times> int) list" where
  "add_to_group q v [] = [(q, v)]"
| "add_to_group q v ((k, s) # groups) =
     (if k = q then (k, s + v) # groups else (k, s) # add_to_group q v groups)"

definition total_impressions :: "int row list \<Rightarrow> (string \<times> int) list" where
  "total_impressions rs =
     sort_key fst (foldl (\<lambda>groups r. add_to_group (Query r) (Impressions r) groups) [] rs)"

text \<open>
  Line 83: \<open>pd.merge(df, total_impressions, on='Query', how='left')\<close>. Every left row
  stays, in its place, and gets the total found under its query. A left row without a
  partner would get \<open>NaN\<close>; every query of \<open>df\<close> is a key of \<open>total_impressions\<close> (lemma
  \<open>total_impressions_lookup\<close>), so the last case of \<open>lookup_total\<close> is never taken.
\<close>

definition lookup_total :: "(string \<times> int) list \<Rightarrow> string \<Rightarrow> int" where
  "lookup_total totals q = (case map_of totals q of Some t \<Rightarrow> t | None \<Rightarrow> 0)"

definition merge_left :: "int row list \<Rightarrow> (string \<times> int) list \<Rightarrow> trow list" where
  "merge_left rs totals =
     map (\<lambda>r. \<lparr>Landing_Page = Landing_Page r, Query = Query r, Impressions = Impressions r,
               Total_Keyword_Impressions = lookup_total totals (Query r)\<rparr>) rs"

text \<open>Line 86: the new column.\<close>

definition add_percentage :: "trow list \<Rightarrow> rat prow list" where
  "add_percentage rs =
     map (\<lambda>r. \<lparr>Landing_Page = Landing_Page r, Query = Query r, Impressions = Impressions r,
               Total_Keyword_Impressions = Total_Keyword_Impressions r,
               Percentage_of_Impressions =
                 percentage (Impressions r) (Total_Keyword_Impressions r)\<rparr>) rs"

text \<open>The table as it stands when line 89 runs.\<close>

definition merged :: "string \<Rightarrow> dataframe \<Rightarrow> rat prow list" where
  "merged query_to_remove d =
     (let rs = filtered query_to_remove d
      in add_percentage (merge_left rs (total_impressions rs)))"

text \<open>
  Line 89: \<open>drop_duplicates(subset=['Query', 'Landing Page'])\<close>, with pandas' default
  \<open>keep='first'\<close>: a row goes when an earlier row has the same pair; \<open>seen\<close> holds the
  pairs met so far.
\<close>

definition pair_of :: "('i, 'z) row_scheme \<Rightarrow> string \<times> string" where
  "pair_of r = (Query r, Landing_Page r)"

fun drop_duplicates_from ::
  "(string \<times> string) list \<Rightarrow> ('i, 'z) row_scheme list \<Rightarrow> ('i, 'z) row_scheme list" where
  "drop_duplicates_from seen [] = []"
| "drop_duplicates_from seen (r # rs) =
     (if pair_of r \<in> set seen then drop_duplicates_from seen rs
      else r # drop_duplicates_from (pair_of r # seen) rs)"

definition drop_duplicates :: "('i, 'z) row_scheme list \<Rightarrow> ('i, 'z) row_scheme list" where
  "drop_duplicates rs = drop_duplicates_from [] rs"

definition deduplicated :: "string \<Rightarrow> dataframe \<Rightarrow> rat prow list" where
  "deduplicated query_to_remove d = drop_duplicates (merged query_to_remove d)"

text \<open>Line 92: both comparisons are strict.\<close>

definition share_band :: "rat prow list \<Rightarrow> rat prow list" where
  "share_band rs =
     [r \<leftarrow> rs. 10 < Percentage_of_Impressions r \<and> Percentage_of_Impressions r < 75]"

subsection \<open>Lines 95 to 104: the displayed table\<close>

text \<open>Line 101: \<open>np.ceil(...).astype(int).astype(str) + '%'\<close>, one value.\<close>

definition display_percentage :: "rat \<Rightarrow> string" where
  "display_percentage p = str \<lceil>p\<rceil> @ ''%''"

definition format_row :: "rat prow \<Rightarrow> string prow" where
  "format_row r =
     \<lparr>Landing_Page = Landing_Page r, Query = Query r, Impressions = Impressions r,
      Total_Keyword_Impressions = Total_Keyword_Impressions r,
      Percentage_of_Impressions = display_percentage (Percentage_of_Impressions r)\<rparr>"

definition format_percentage :: "rat prow list \<Rightarrow> string prow list" where
  "format_percentage rs = map format_row rs"

text \<open>
  Lines 92 to 104 in order: the share band, the sort by query (line 98), the formatting
  (line 101) and the final sort by total, descending (line 104). The column selection of
  line 95 keeps exactly the five columns of the model.
\<close>

definition cleaned :: "string \<Rightarrow> dataframe \<Rightarrow> string prow list" where
  "cleaned query_to_remove d =
     sort_key (\<lambda>r. - Total_Keyword_Impressions r)
       (format_percentage (sort_key Query (share_band (deduplicated query_to_remove d))))"

subsection \<open>Lines 108 to 113: the ranking\<close>

text \<open>
  \<open>groupby('Query')\<close> yields one group per query of the table, keys ascending, each group
  holding its rows in table order. The aggregation takes \<open>nunique\<close> of the landing pages
  and \<open>first\<close> of the totals; a group is never empty.
\<close>

definition groupby_Query :: "('i, 'z) row_scheme list \<Rightarrow> (string \<times> ('i, 'z) row_scheme list) list" where
  "groupby_Query rs = map (\<lambda>q. (q, [r \<leftarrow> rs. Query r = q])) (sort (remdups (map Query rs)))"

fun agg_group :: "string \<times> string prow list \<Rightarrow> summary list" where
  "agg_group (q, []) = []"
| "agg_group (q, r # rs) =
     [\<lparr>s_Query = q,
       s_Landing_Pages = length (remdups (map Landing_Page (r # rs))),
       s_Total_Keyword_Impressions = Total_Keyword_Impressions r\<rparr>]"

definition cannibalization :: "string prow list \<Rightarrow> summary list" where
  "cannibalization rs = [s \<leftarrow> concat (map agg_group (groupby_Query rs)). 1 < s_Landing_Pages s]"

definition top_10 :: "string prow list \<Rightarrow> summary list" where
  "top_10 rs = take 10 (sort_key (\<lambda>s. - s_Total_Keyword_Impressions s) (cannibalization rs))"

subsection \<open>The submission as a whole\<close>

text \<open>
  The body of \<open>if submit_button:\<close>. \<open>uploaded_file\<close> is \<open>None\<close> when nothing was uploaded.
  A result \<open>Inl\<close> is an error message with no table shown; \<open>Inr\<close> carries the cleaned
  table (shown and offered for download), the ranking (charted when it is not empty,
  replaced by an information line when it is) and the two counts the source computes.
\<close>

definition process :: "string \<Rightarrow> uploaded_file option \<Rightarrow> error + outcome" where
  "process query_to_remove uploaded =
     (case uploaded of
        None \<Rightarrow> Inl No_File
      | Some Empty_File \<Rightarrow> Inl EmptyDataError
      | Some Malformed_File \<Rightarrow> Inl ParserError
      | Some (Csv d) \<Rightarrow>
          if missing_columns d \<noteq> [] then Inl (Missing_Columns (missing_columns d))
          else Inr \<lparr>df = cleaned query_to_remove d,
                    top_cannibalized = top_10 (cleaned query_to_remove d),
                    dropped_non_numeric = count_dropped_non_numeric (rows d),
                    dropped_low_impressions =
                      count_dropped_low_impressions
                        (remove_branded query_to_remove (normalized d))\<rparr>)"

subsection \<open>Sample reports\<close>

text \<open>One line of a report: query, landing page, impressions cell.\<close>

definition report_line :: "string \<Rightarrow> string \<Rightarrow> cell \<Rightarrow> cell row" where
  "report_line q p c = \<lparr>Landing_Page = p, Query = q, Impressions = c\<rparr>"

text \<open>
  A report with a branded query, two near misses of the branded term, a landing page
  listed twice for one query, a cell that is not a number and a row under the floor.
\<close>

definition branded_report :: dataframe where
  "branded_report =
     \<lparr>columns = [''Query'', ''Landing Page'', ''Impressions'', ''Clicks''],
      rows = [report_line ''shoes'' ''/a'' (Num 20),
              report_line ''shoes'' ''/b'' (Num 20),
              report_line ''shoes'' ''/a'' (Num 60),
              report_line ''BrandX'' ''/c'' (Num 1000),
              report_line ''BrandX shoes'' ''/d'' (Num 12),
              report_line ''brandx'' ''/e'' (Num 11),
              report_line ''socks'' ''/f'' NaN,
              report_line ''socks'' ''/g'' (Num 5)]\<rparr>"


text \<open>A report whose shares sit on and around the two ends of the band.\<close>

definition shares_report :: dataframe where
  "shares_report =
     \<lparr>columns = [''Landing Page'', ''Query'', ''Impressions''],
      rows = [report_line ''s'' ''/a'' (Num 14),
              report_line ''s'' ''/b'' (Num 43),
              report_line ''s'' ''/c'' (Num 43),
              report_line ''t'' ''/a'' (Num 75),
              report_line ''t'' ''/b'' (Num 25),
              report_line ''u'' ''/a'' (Num 10),
              report_line ''u'' ''/b'' (Num 90),
              report_line ''v'' ''/a'' (Num 149),
              report_line ''v'' ''/b'' (Num 51)]\<rparr>"


text \<open>A report without the columns \<open>Impressions\<close> and \<open>Landing Page\<close>.\<close>

definition clicks_report :: dataframe where
  "clicks_report =
     \<lparr>columns = [''Query'', ''Clicks''],
      rows = [report_line ''shoes'' [] NaN]\<rparr>"

section \<open>Properties of the stages\<close>

subsection \<open>Splitting and trimming\<close>

text \<open>
  The pieces of \<open>split\<close> contain no comma and give the input back when joined, so they
  are the pieces Python returns.
\<close>

lemma split_from_join:
  "concat (map (\<lambda>p. p @ '','') (split_from cur s)) = rev cur @ s @ '',''"
  by (induction cur s rule: split_from.induct) simp_all

lemma split_from_no_comma:
  "CHR '','' \<notin> set cur \<Longrightarrow> p \<in> set (split_from cur s) \<Longrightarrow> CHR '','' \<notin> set p"
  by (induction cur s arbitrary: p rule: split_from.induct) (auto split: if_splits)

lemma split_comma_join: "concat (map (\<lambda>p. p @ '','') (split_comma s)) = s @ '',''"
  by (simp add: split_comma_def split_from_join)

lemma split_comma_no_comma: "p \<in> set (split_comma s) \<Longrightarrow> CHR '','' \<notin> set p"
  unfolding split_comma_def by (rule split_from_no_comma) simp_all

lemma rev_dropWhile_rev_prefix:
  "xs = rev (dropWhile P (rev xs)) @ rev (takeWhile P (rev xs))"
  by (metis rev_append rev_rev_ident takeWhile_dropWhile_id)

lemma strip_no_leading:
  assumes "strip s \<noteq> []"
  shows "\<not> isspace (hd (strip s))"
proof -
  let ?a = "dropWhile isspace s"
  have "?a = strip s @ rev (takeWhile isspace (rev ?a))"
    unfolding strip_def by (rule rev_dropWhile_rev_prefix)
  then have "hd ?a = hd (strip s)" and "?a \<noteq> []"
    using assms by (metis hd_append2, metis append_is_Nil_conv)
  then show ?thesis
    using hd_dropWhile [of isspace s] by simp
qed

lemma strip_no_trailing:
  assumes "strip s \<noteq> []"
  shows "\<not> isspace (last (strip s))"
proof -
  have "dropWhile isspace (rev (dropWhile isspace s)) \<noteq> []"
    using assms by (simp add: strip_def)
  then have "\<not> isspace (hd (dropWhile isspace (rev (dropWhile isspace s))))"
    by (rule hd_dropWhile)
  then show ?thesis
    using assms by (simp add: strip_def last_rev)
qed

lemma dropWhile_self: "xs = [] \<or> \<not> P (hd xs) \<Longrightarrow> dropWhile P xs = xs"
  by (cases xs) auto

lemma strip_idem: "strip (strip s) = strip s"
proof -
  have a: "dropWhile isspace (strip s) = strip s"
    using strip_no_leading [of s] by (intro dropWhile_self) blast
  have "rev (strip s) = [] \<or> \<not> isspace (hd (rev (strip s)))"
    using strip_no_trailing [of s] by (auto simp: hd_rev)
  then have b: "dropWhile isspace (rev (strip s)) = rev (strip s)"
    by (rule dropWhile_self)
  show ?thesis
    unfolding strip_def [of "strip s"] a b by simp
qed

lemma queries_to_remove_Nil: "queries_to_remove [] = []"
  by (simp add: queries_to_remove_def split_comma_def strip_def)

lemma remove_branded_filter:
  "remove_branded q rs = [r \<leftarrow> rs. Query r \<notin> set (queries_to_remove q)]"
  by (cases "q = []") (simp_all add: remove_branded_def queries_to_remove_Nil)

subsection \<open>Known doubles\<close>

text \<open>
  Three values of the rounding that can be checked against any IEEE 754 implementation:
  the double written \<open>0.1\<close>, a tie that goes to the even neighbour, and the share of 14
  impressions in 100, which Python prints as \<open>14.000000000000002\<close>.
\<close>

lemma float64_one_tenth: "float64 (1 / 10) = 3602879701896397 / 2 ^ 55"
  by code_simp

lemma float64_tie_to_even: "float64 (2 ^ 53 + 1) = 2 ^ 53"
  by code_simp

lemma percentage_14_of_100: "percentage 14 100 = 14 + 1 / 2 ^ 49"
  by code_simp

subsection \<open>Numeric rows and the two counts\<close>








lemma filtered_filter:
  "filtered q d =
     [r \<leftarrow> normalized d. Query r \<notin> set (queries_to_remove q) \<and> 10 \<le> Impressions r]"
  by (simp add: filtered_def impressions_floor_def remove_branded_filter conj_commute)

lemma filtered_ge_10: "r \<in> set (filtered q d) \<Longrightarrow> 10 \<le> Impressions r"
  by (simp add: filtered_filter)

subsection \<open>Totals per query\<close>

text \<open>
  The running sums behave as a dictionary from query to sum; sorting the groups by key
  does not change what is found under a key, because no key occurs twice.
\<close>

lemma map_of_add_to_group:
  "map_of (add_to_group q v gs) =
     (map_of gs)(q \<mapsto> (case map_of gs q of None \<Rightarrow> v | Some s \<Rightarrow> s + v))"
  by (induction q v gs rule: add_to_group.induct) (auto simp: fun_eq_iff)

lemma keys_add_to_group:
  "map fst (add_to_group q v gs) = (if q \<in> fst ` set gs then map fst gs else map fst gs @ [q])"
  by (induction q v gs rule: add_to_group.induct) (auto)

lemma distinct_add_to_group:
  "distinct (map fst gs) \<Longrightarrow> distinct (map fst (add_to_group q v gs))"
  by (simp add: keys_add_to_group)

lemma distinct_foldl_groups:
  "distinct (map fst gs) \<Longrightarrow>
   distinct (map fst (foldl (\<lambda>groups r. add_to_group (Query r) (Impressions r) groups) gs rs))"
  by (induction rs arbitrary: gs) (simp_all add: distinct_add_to_group)

lemma filter_Query_Nil: "q \<notin> Query ` set rs \<Longrightarrow> [r \<leftarrow> rs. Query r = q] = []"
  by (induction rs) auto

lemma map_of_foldl_groups:
  "map_of (foldl (\<lambda>groups r. add_to_group (Query r) (Impressions r) groups) gs rs) q =
     (if q \<in> Query ` set rs
      then Some ((case map_of gs q of None \<Rightarrow> 0 | Some s \<Rightarrow> s) +
                 sum_list (map Impressions [r \<leftarrow> rs. Query r = q]))
      else map_of gs q)"
proof (induction rs arbitrary: gs)
  case Nil
  show ?case by simp
next
  case (Cons r rs)
  show ?case
    by (simp add: Cons.IH map_of_add_to_group filter_Query_Nil split: option.splits)
qed

lemma distinct_keys_sort_key:
  "distinct (map fst (sort_key fst gs)) = distinct (map fst gs)"
proof -
  have "mset (map fst (sort_key fst gs)) = mset (map fst gs)"
    by simp
  then show ?thesis
    by (rule mset_eq_imp_distinct_iff)
qed

lemma map_of_sort_key:
  assumes "distinct (map fst gs)"
  shows "map_of (sort_key fst gs) = map_of gs"
proof -
  have "distinct (map fst (sort_key fst gs))"
    using assms by (simp add: distinct_keys_sort_key)
  then show ?thesis
    using assms by (simp add: map_of_inject_set)
qed

lemma total_impressions_lookup:
  "map_of (total_impressions rs) q =
     (if q \<in> Query ` set rs
      then Some (sum_list (map Impressions [r \<leftarrow> rs. Query r = q])) else None)"
proof -
  let ?gs = "foldl (\<lambda>groups r. add_to_group (Query r) (Impressions r) groups) [] rs"
  have "distinct (map fst ?gs)"
    by (rule distinct_foldl_groups) simp
  then have "map_of (total_impressions rs) = map_of ?gs"
    unfolding total_impressions_def by (rule map_of_sort_key)
  then show ?thesis
    by (simp add: map_of_foldl_groups)
qed

lemma lookup_total_eq:
  "q \<in> Query ` set rs \<Longrightarrow>
   lookup_total (total_impressions rs) q = sum_list (map Impressions [r \<leftarrow> rs. Query r = q])"
  by (simp add: lookup_total_def total_impressions_lookup)

lemma sorted_keys_total_impressions: "sorted (map fst (total_impressions rs))"
  by (simp add: total_impressions_def)

lemma merged_rows:
  "merged q d =
     map (\<lambda>r. \<lparr>Landing_Page = Landing_Page r, Query = Query r, Impressions = Impressions r,
               Total_Keyword_Impressions =
                 sum_list (map Impressions [x \<leftarrow> filtered q d. Query x = Query r]),
               Percentage_of_Impressions =
                 percentage (Impressions r)
                   (sum_list (map Impressions [x \<leftarrow> filtered q d. Query x = Query r]))\<rparr>)
       (filtered q d)"
  by (simp add: merged_def Let_def add_percentage_def merge_left_def lookup_total_eq)


lemma merged_total:
  "r \<in> set (merged q d) \<Longrightarrow>
   Total_Keyword_Impressions r = sum_list (map Impressions [x \<leftarrow> filtered q d. Query x = Query r])"
  by (auto simp: merged_rows)


lemma sum_list_ge_member:
  fixes xs :: "int list"
  assumes "\<forall>x \<in> set xs. 0 \<le> x" "y \<in> set xs"
  shows "y \<le> sum_list xs"
  using assms by (induction xs) (auto simp: sum_list_nonneg add_increasing add_increasing2)

lemma total_ge_Impressions:
  assumes "r \<in> set (merged q d)"
  shows "Impressions r \<le> Total_Keyword_Impressions r" and "10 \<le> Impressions r"
proof -
  from assms obtain x where x: "x \<in> set (filtered q d)" "Query x = Query r" "Impressions x = Impressions r"
    by (auto simp: merged_rows)
  show "10 \<le> Impressions r" using x filtered_ge_10 by metis
  have "Impressions x \<in> set (map Impressions [y \<leftarrow> filtered q d. Query y = Query r])"
    using x by (auto intro!: image_eqI [of _ _ x])
  moreover have "\<forall>v \<in> set (map Impressions [y \<leftarrow> filtered q d. Query y = Query r]). 0 \<le> v"
    using filtered_ge_10 by fastforce
  ultimately have "Impressions x \<le> sum_list (map Impressions [y \<leftarrow> filtered q d. Query y = Query r])"
    using sum_list_ge_member by blast
  then show "Impressions r \<le> Total_Keyword_Impressions r"
    using x merged_total [OF assms] by simp
qed

lemma total_ge_10: "r \<in> set (merged q d) \<Longrightarrow> 10 \<le> Total_Keyword_Impressions r"
  using total_ge_Impressions [of r q d] by linarith

subsection \<open>Row order before the duplicates go\<close>




subsection \<open>Dropping duplicates\<close>

lemma drop_duplicates_from_filter:
  "drop_duplicates_from seen rs = [r \<leftarrow> drop_duplicates_from [] rs. pair_of r \<notin> set seen]"
proof (induction rs arbitrary: seen)
  case Nil
  show ?case by simp
next
  case (Cons r rs)
  have a: "drop_duplicates_from (pair_of r # seen) rs =
           [x \<leftarrow> drop_duplicates_from [] rs. pair_of x \<notin> set (pair_of r # seen)]"
    by (rule Cons.IH)
  have b: "drop_duplicates_from [pair_of r] rs =
           [x \<leftarrow> drop_duplicates_from [] rs. pair_of x \<notin> set [pair_of r]]"
    by (rule Cons.IH)
  have c: "drop_duplicates_from seen rs = [x \<leftarrow> drop_duplicates_from [] rs. pair_of x \<notin> set seen]"
    by (rule Cons.IH)
  show ?case
    by (auto simp: a b c intro: filter_cong)
qed

lemma drop_duplicates_Nil: "drop_duplicates [] = []"
  by (simp add: drop_duplicates_def)

lemma drop_duplicates_Cons:
  "drop_duplicates (r # rs) = r # [x \<leftarrow> drop_duplicates rs. pair_of x \<noteq> pair_of r]"
  using drop_duplicates_from_filter [of "[pair_of r]" rs] by (simp add: drop_duplicates_def)

lemma set_drop_duplicates: "set (drop_duplicates rs) \<subseteq> set rs"
  by (induction rs) (auto simp: drop_duplicates_Nil drop_duplicates_Cons)

lemma pairs_filter_neq:
  "pair_of ` set [x \<leftarrow> ys. pair_of x \<noteq> p] = pair_of ` set ys - {p}"
  by auto

lemma pairs_drop_duplicates: "pair_of ` set (drop_duplicates rs) = pair_of ` set rs"
proof (induction rs)
  case Nil
  show ?case by (simp add: drop_duplicates_Nil)
next
  case (Cons r rs)
  have "pair_of ` set (drop_duplicates (r # rs)) =
        insert (pair_of r) (pair_of ` set (drop_duplicates rs) - {pair_of r})"
    by (simp only: drop_duplicates_Cons list.set image_insert pairs_filter_neq)
  also have "\<dots> = pair_of ` set (r # rs)"
    by (auto simp: Cons.IH)
  finally show ?case .
qed

lemma distinct_drop_duplicates: "distinct (map pair_of (drop_duplicates rs))"
  by (induction rs) (auto simp: drop_duplicates_Nil drop_duplicates_Cons distinct_map_filter)

lemma find_filter_weaker:
  "(\<And>x. P x \<Longrightarrow> Q x) \<Longrightarrow> find P (filter Q xs) = find P xs"
  by (induction xs) auto

lemma find_drop_duplicates:
  "find (\<lambda>x. pair_of x = p) (drop_duplicates rs) = find (\<lambda>x. pair_of x = p) rs"
proof (induction rs)
  case Nil
  show ?case by (simp add: drop_duplicates_Nil)
next
  case (Cons r rs)
  have "find (\<lambda>x. pair_of x = p) [x \<leftarrow> drop_duplicates rs. pair_of x \<noteq> pair_of r] =
        find (\<lambda>x. pair_of x = p) (drop_duplicates rs)" if "pair_of r \<noteq> p"
    by (rule find_filter_weaker) (use that in auto)
  then show ?case
    by (simp add: drop_duplicates_Cons Cons.IH)
qed



lemma deduplicated_subset: "set (deduplicated q d) \<subseteq> set (merged q d)"
  unfolding deduplicated_def by (rule set_drop_duplicates)

subsection \<open>The displayed table\<close>

lemma format_row_fields:
  "Landing_Page (format_row r) = Landing_Page r"
  "Query (format_row r) = Query r"
  "Impressions (format_row r) = Impressions r"
  "Total_Keyword_Impressions (format_row r) = Total_Keyword_Impressions r"
  "Percentage_of_Impressions (format_row r) = display_percentage (Percentage_of_Impressions r)"
  "pair_of (format_row r) = pair_of r"
  by (simp_all add: format_row_def pair_of_def)

lemma mset_cleaned:
  "mset (cleaned q d) =
     image_mset format_row
       (filter_mset (\<lambda>r. 10 < Percentage_of_Impressions r \<and> Percentage_of_Impressions r < 75)
          (mset (deduplicated q d)))"
  by (simp add: cleaned_def format_percentage_def share_band_def)





lemma distinct_pairs_cleaned: "distinct (map pair_of (cleaned q d))"
proof -
  let ?band = "\<lambda>r::rat prow. 10 < Percentage_of_Impressions r \<and> Percentage_of_Impressions r < 75"
  have "mset (map pair_of (cleaned q d)) = mset (map pair_of (filter ?band (deduplicated q d)))"
    by (simp add: mset_cleaned multiset.map_comp comp_def format_row_fields)
  moreover have "distinct (map pair_of (filter ?band (deduplicated q d)))"
    unfolding deduplicated_def by (rule distinct_map_filter) (rule distinct_drop_duplicates)
  ultimately show ?thesis
    using mset_eq_imp_distinct_iff by blast
qed

lemma sorted_cleaned:
  "sorted_wrt (\<lambda>a b. Total_Keyword_Impressions b \<le> Total_Keyword_Impressions a) (cleaned q d)"
proof -
  have "sorted (map (\<lambda>r. - Total_Keyword_Impressions r) (cleaned q d))"
    unfolding cleaned_def by (rule sorted_sort_key)
  then show ?thesis
    by (simp add: sorted_map)
qed


subsection \<open>The ranking\<close>















subsection \<open>The submission\<close>


lemma missing_columns_set: "set (missing_columns d) = set required_columns - set (columns d)"
  by (auto simp: missing_columns_def)

lemma missing_columns_Nil: "missing_columns d = [] \<longleftrightarrow> set required_columns \<subseteq> set (columns d)"
  by (auto simp: missing_columns_def filter_empty_conv)

section \<open>The sample reports, stage by stage\<close>


lemma branded_terms: "queries_to_remove '' BrandX , ,'' = [''BrandX'']"
  by code_simp

lemma branded_normalized:
  "normalized branded_report =
     [\<lparr>Landing_Page = ''/c'', Query = ''BrandX'', Impressions = 1000\<rparr>,
      \<lparr>Landing_Page = ''/a'', Query = ''shoes'', Impressions = 60\<rparr>,
      \<lparr>Landing_Page = ''/a'', Query = ''shoes'', Impressions = 20\<rparr>,
      \<lparr>Landing_Page = ''/b'', Query = ''shoes'', Impressions = 20\<rparr>,
      \<lparr>Landing_Page = ''/d'', Query = ''BrandX shoes'', Impressions = 12\<rparr>,
      \<lparr>Landing_Page = ''/e'', Query = ''brandx'', Impressions = 11\<rparr>,
      \<lparr>Landing_Page = ''/g'', Query = ''socks'', Impressions = 5\<rparr>]"
  by code_simp

lemma branded_removed:
  "remove_branded '' BrandX , ,'' (normalized branded_report) =
     [\<lparr>Landing_Page = ''/a'', Query = ''shoes'', Impressions = 60\<rparr>,
      \<lparr>Landing_Page = ''/a'', Query = ''shoes'', Impressions = 20\<rparr>,
      \<lparr>Landing_Page = ''/b'', Query = ''shoes'', Impressions = 20\<rparr>,
      \<lparr>Landing_Page = ''/d'', Query = ''BrandX shoes'', Impressions = 12\<rparr>,
      \<lparr>Landing_Page = ''/e'', Query = ''brandx'', Impressions = 11\<rparr>,
      \<lparr>Landing_Page = ''/g'', Query = ''socks'', Impressions = 5\<rparr>]"
  by (simp add: remove_branded_filter branded_terms branded_normalized)

lemma branded_filtered:
  "filtered '' BrandX , ,'' branded_report =
     [\<lparr>Landing_Page = ''/a'', Query = ''shoes'', Impressions = 60\<rparr>,
      \<lparr>Landing_Page = ''/a'', Query = ''shoes'', Impressions = 20\<rparr>,
      \<lparr>Landing_Page = ''/b'', Query = ''shoes'', Impressions = 20\<rparr>,
      \<lparr>Landing_Page = ''/d'', Query = ''BrandX shoes'', Impressions = 12\<rparr>,
      \<lparr>Landing_Page = ''/e'', Query = ''brandx'', Impressions = 11\<rparr>]"
  by (simp add: filtered_def branded_removed impressions_floor_def)

lemma percentage_60_100: "percentage 60 100 = 60" by code_simp

lemma percentage_20_100: "percentage 20 100 = 20" by code_simp

lemma percentage_12_12: "percentage 12 12 = 100" by code_simp

lemma percentage_11_11: "percentage 11 11 = 100" by code_simp

lemma branded_merged:
  "merged '' BrandX , ,'' branded_report =
     [\<lparr>Landing_Page = ''/a'', Query = ''shoes'', Impressions = 60,
       Total_Keyword_Impressions = 100, Percentage_of_Impressions = 60\<rparr>,
      \<lparr>Landing_Page = ''/a'', Query = ''shoes'', Impressions = 20,
       Total_Keyword_Impressions = 100, Percentage_of_Impressions = 20\<rparr>,
      \<lparr>Landing_Page = ''/b'', Query = ''shoes'', Impressions = 20,
       Total_Keyword_Impressions = 100, Percentage_of_Impressions = 20\<rparr>,
      \<lparr>Landing_Page = ''/d'', Query = ''BrandX shoes'', Impressions = 12,
       Total_Keyword_Impressions = 12, Percentage_of_Impressions = 100\<rparr>,
      \<lparr>Landing_Page = ''/e'', Query = ''brandx'', Impressions = 11,
       Total_Keyword_Impressions = 11, Percentage_of_Impressions = 100\<rparr>]"
  by (simp add: merged_rows branded_filtered percentage_60_100 percentage_20_100
      percentage_12_12 percentage_11_11)

lemma branded_deduplicated:
  "deduplicated '' BrandX , ,'' branded_report =
     [\<lparr>Landing_Page = ''/a'', Query = ''shoes'', Impressions = 60,
       Total_Keyword_Impressions = 100, Percentage_of_Impressions = 60\<rparr>,
      \<lparr>Landing_Page = ''/b'', Query = ''shoes'', Impressions = 20,
       Total_Keyword_Impressions = 100, Percentage_of_Impressions = 20\<rparr>,
      \<lparr>Landing_Page = ''/d'', Query = ''BrandX shoes'', Impressions = 12,
       Total_Keyword_Impressions = 12, Percentage_of_Impressions = 100\<rparr>,
      \<lparr>Landing_Page = ''/e'', Query = ''brandx'', Impressions = 11,
       Total_Keyword_Impressions = 11, Percentage_of_Impressions = 100\<rparr>]"
  by (simp add: deduplicated_def branded_merged drop_duplicates_def pair_of_def)

lemma display_60: "display_percentage 60 = ''60%''" by code_simp

lemma display_20: "display_percentage 20 = ''20%''" by code_simp

lemma branded_cleaned:
  "cleaned '' BrandX , ,'' branded_report =
     [\<lparr>Landing_Page = ''/a'', Query = ''shoes'', Impressions = 60,
       Total_Keyword_Impressions = 100, Percentage_of_Impressions = ''60%''\<rparr>,
      \<lparr>Landing_Page = ''/b'', Query = ''shoes'', Impressions = 20,
       Total_Keyword_Impressions = 100, Percentage_of_Impressions = ''20%''\<rparr>]"
  by (simp add: cleaned_def branded_deduplicated share_band_def format_percentage_def
      format_row_def display_60 display_20)









lemma shares_columns: "missing_columns shares_report = []"
  by (simp add: missing_columns_def required_columns_def shares_report_def)

















lemma clicks_missing: "missing_columns clicks_report = [''Impressions'', ''Landing Page'']"
  by (simp add: missing_columns_def required_columns_def clicks_report_def)

section \<open>The claims of the specification\<close>







text \<open>
  Claim C4. The exclusion removes exactly the rows whose query is equal to one of the
  terms; the terms are the pieces of the typed text between commas, trimmed, without the
  empty ones; a term has no white space left at either end. Equality of strings is exact,
  so a query that only contains a term, or differs from it in case, stays.
\<close>

theorem branded_terms_exact_match:
  "remove_branded q rs = [r \<leftarrow> rs. Query r \<notin> set (queries_to_remove q)] \<and>
   set (queries_to_remove q) = strip ` set (split_comma q) - {[]} \<and>
   (\<forall>t \<in> set (queries_to_remove q). strip t = t)"
proof (intro conjI ballI)
  show "remove_branded q rs = [r \<leftarrow> rs. Query r \<notin> set (queries_to_remove q)]"
    by (rule remove_branded_filter)
  show "set (queries_to_remove q) = strip ` set (split_comma q) - {[]}"
    by (auto simp: queries_to_remove_def)
next
  fix t assume "t \<in> set (queries_to_remove q)"
  then obtain p where "t = strip p"
    by (auto simp: queries_to_remove_def)
  then show "strip t = t"
    by (simp add: strip_idem)
qed

theorem branded_terms_exact_match_witness:
  "''BrandX'' \<in> set (queries_to_remove '' BrandX , ,'') \<and>
   strip ''BrandX'' = ''BrandX'' \<and>
   split_comma '' BrandX , ,'' = ['' BrandX '', '' '', []] \<and>
   remove_branded '' BrandX , ,''
     [\<lparr>Landing_Page = ''/c'', Query = ''BrandX'', Impressions = 1000\<rparr>,
      \<lparr>Landing_Page = ''/d'', Query = ''BrandX shoes'', Impressions = 12\<rparr>,
      \<lparr>Landing_Page = ''/e'', Query = ''brandx'', Impressions = 11\<rparr>,
      \<lparr>Landing_Page = ''/h'', Query = '' BrandX '', Impressions = 11\<rparr>] =
     [\<lparr>Landing_Page = ''/d'', Query = ''BrandX shoes'', Impressions = 12\<rparr>,
      \<lparr>Landing_Page = ''/e'', Query = ''brandx'', Impressions = 11\<rparr>,
      \<lparr>Landing_Page = ''/h'', Query = '' BrandX '', Impressions = 11\<rparr>]"
proof -
  have m: "''BrandX'' \<in> set (queries_to_remove '' BrandX , ,'')"
    by (simp add: branded_terms)
  have s: "split_comma '' BrandX , ,'' = ['' BrandX '', '' '', []]"
    by code_simp
  from branded_terms_exact_match [of "'' BrandX , ,''"] m have "strip ''BrandX'' = ''BrandX''"
    by blast
  then show ?thesis
    using branded_terms_exact_match [of "'' BrandX , ,''"] m s by (simp add: branded_terms)
qed

text \<open>
  Claim C5. A table that lacks a required column ends the submission with the error that
  lists the missing required columns, and exactly those; the result is an error, so it
  carries no table, counts or ranking; and it is the same whatever rows the table has.
\<close>

theorem missing_columns_schema_error:
  assumes "\<not> set required_columns \<subseteq> set (columns d)"
  shows "process q (Some (Csv d)) = Inl (Missing_Columns (missing_columns d)) \<and>
     missing_columns d \<noteq> [] \<and>
     set (missing_columns d) = set required_columns - set (columns d) \<and>
     process q (Some (Csv (d\<lparr>rows := rs\<rparr>))) = process q (Some (Csv d))"
proof -
  have m: "missing_columns d \<noteq> []"
    using assms by (simp add: missing_columns_Nil)
  have "missing_columns (d\<lparr>rows := rs\<rparr>) = missing_columns d"
    by (simp add: missing_columns_def)
  then show ?thesis
    using m by (simp add: process_def missing_columns_set)
qed

theorem missing_columns_schema_error_witness:
  "\<not> set required_columns \<subseteq> set (columns clicks_report) \<and>
   process [] (Some (Csv clicks_report)) =
     Inl (Missing_Columns [''Impressions'', ''Landing Page'']) \<and>
   process [] (Some (Csv (clicks_report\<lparr>rows := []\<rparr>))) =
     Inl (Missing_Columns [''Impressions'', ''Landing Page''])"
proof -
  have h: "\<not> set required_columns \<subseteq> set (columns clicks_report)"
    by (simp add: required_columns_def clicks_report_def)
  show ?thesis
    using h missing_columns_schema_error [OF h, of "[]" "[]"] by (simp add: clicks_missing)
qed

text \<open>
  Claim C6. No pair of query and landing page occurs twice in the final table, nor in the
  table right after \<open>drop_duplicates\<close>; dropping duplicates only removes rows; and for
  every pair the row found first after \<open>drop_duplicates\<close> is the row found first before
  it, in the row order the table has at that moment.
\<close>

theorem one_row_per_query_and_landing_page:
  "distinct (map pair_of (cleaned q d)) \<and>
   distinct (map pair_of (deduplicated q d)) \<and>
   set (deduplicated q d) \<subseteq> set (merged q d) \<and>
   find (\<lambda>r. pair_of r = p) (deduplicated q d) = find (\<lambda>r. pair_of r = p) (merged q d)"
  using distinct_pairs_cleaned [of q d] deduplicated_subset [of q d]
  by (simp add: deduplicated_def distinct_drop_duplicates find_drop_duplicates)

theorem one_row_per_query_and_landing_page_witness:
  "map pair_of (merged '' BrandX , ,'' branded_report) =
     [(''shoes'', ''/a''), (''shoes'', ''/a''), (''shoes'', ''/b''),
      (''BrandX shoes'', ''/d''), (''brandx'', ''/e'')] \<and>
   map pair_of (deduplicated '' BrandX , ,'' branded_report) =
     [(''shoes'', ''/a''), (''shoes'', ''/b''), (''BrandX shoes'', ''/d''), (''brandx'', ''/e'')] \<and>
   find (\<lambda>r. pair_of r = (''shoes'', ''/a'')) (deduplicated '' BrandX , ,'' branded_report) =
     Some \<lparr>Landing_Page = ''/a'', Query = ''shoes'', Impressions = 60,
       Total_Keyword_Impressions = 100, Percentage_of_Impressions = 60\<rparr> \<and>
   map pair_of (cleaned '' BrandX , ,'' branded_report) = [(''shoes'', ''/a''), (''shoes'', ''/b'')]"
proof -
  have m: "find (\<lambda>r. pair_of r = (''shoes'', ''/a'')) (merged '' BrandX , ,'' branded_report) =
     Some \<lparr>Landing_Page = ''/a'', Query = ''shoes'', Impressions = 60,
       Total_Keyword_Impressions = 100, Percentage_of_Impressions = 60\<rparr>"
    by (simp add: branded_merged pair_of_def)
  from one_row_per_query_and_landing_page [of "'' BrandX , ,''" branded_report "(''shoes'', ''/a'')"]
  have "find (\<lambda>r. pair_of r = (''shoes'', ''/a'')) (deduplicated '' BrandX , ,'' branded_report) =
        find (\<lambda>r. pair_of r = (''shoes'', ''/a'')) (merged '' BrandX , ,'' branded_report)"
    by blast
  with m show ?thesis
    by (simp add: branded_merged branded_cleaned branded_deduplicated pair_of_def)
qed











end
